theory Spec2Isabelle
  imports Main "HOL-Library.Log_Nat"
begin

section \<open>JavaScript strings\<close>

text \<open>
  A JavaScript string is a sequence of UTF-16 code units. The model covers the strings whose
  code units are below 256 (the Latin-1 range), one \<^typ>\<open>char\<close> per code unit. In that range
  \<open>String.prototype.trim\<close> and the regular expression class \<open>\s\<close> recognise the same seven
  code units (TAB, LF, VT, FF, CR, SPACE, NBSP), and \<open>toLowerCase\<close> adds 32 to the code units of
  \<open>A\<close>--\<open>Z\<close>, \<open>U+00C0\<close>--\<open>U+00D6\<close> and \<open>U+00D8\<close>--\<open>U+00DE\<close> and leaves every other one alone.
\<close>

definition is_white_space :: "char \<Rightarrow> bool" where
  "is_white_space c = (of_char c \<in> {9, 10, 11, 12, 13, 32, 160 :: nat})"

definition toLowerCase_char :: "char \<Rightarrow> char" where
  "toLowerCase_char c =
     (let n = of_char c :: nat
      in if (65 \<le> n \<and> n \<le> 90) \<or> (192 \<le> n \<and> n \<le> 214) \<or> (216 \<le> n \<and> n \<le> 222)
         then char_of (n + 32) else c)"

definition toLowerCase :: "string \<Rightarrow> string" where
  "toLowerCase s = map toLowerCase_char s"

definition trim :: "string \<Rightarrow> string" where
  "trim s = rev (dropWhile is_white_space (rev (dropWhile is_white_space s)))"

section \<open>JavaScript numbers\<close>

text \<open>
  A JavaScript number is an IEEE 754 binary64 value: a finite value (a rational), \<open>NaN\<close> or an
  infinity. The sign of zero is not modelled (\<open>-0 == 0\<close> in JavaScript). Every arithmetic
  operation computes the exact rational result and rounds it; the rounding function is a
  parameter \<open>rnd\<close> of the operations, so that a property can be stated for the arithmetic of
  the code (\<open>binary64\<close>) or for arithmetic without rounding (\<open>exact\<close>).
\<close>

datatype jsnumber = Finite rat | NaN | PosInfinity | NegInfinity

fun isFinite :: "jsnumber \<Rightarrow> bool" where
  "isFinite (Finite q) = True"
| "isFinite NaN = False"
| "isFinite PosInfinity = False"
| "isFinite NegInfinity = False"

definition pow2 :: "int \<Rightarrow> rat" where
  "pow2 e = (if 0 \<le> e then 2 ^ nat e else 1 / 2 ^ nat (- e))"

definition round_half_even :: "rat \<Rightarrow> int" where
  "round_half_even q =
     (let f = \<lfloor>q\<rfloor>; d = q - of_int f
      in if d < 1 / 2 then f else if 1 / 2 < d then f + 1 else if even f then f else f + 1)"

definition floor_log2 :: "rat \<Rightarrow> int" where
  \<comment> \<open>for \<open>0 < a\<close>: the \<open>e\<close> with \<open>2 ^ e \<le> a < 2 ^ (e + 1)\<close>\<close>
  "floor_log2 a =
     (let (p, d) = quotient_of a; e0 = bitlen p - bitlen d
      in if a < pow2 e0 then e0 - 1 else e0)"

definition binary64 :: "rat \<Rightarrow> jsnumber" where
  \<comment> \<open>round to nearest, ties to even, with 53 significant bits, the least exponent -1022
      (subnormal numbers below it) and overflow to an infinity from \<open>2 ^ 1024\<close> on\<close>
  "binary64 q =
     (if q = 0 then Finite 0
      else let a = \<bar>q\<bar>;
               e = max (floor_log2 a) (- 1022);
               u = pow2 (e - 52);
               r = of_int (round_half_even (a / u)) * u
           in if r = 0 then Finite 0
              else if 1024 \<le> floor_log2 r then (if 0 < q then PosInfinity else NegInfinity)
              else Finite (if 0 < q then r else - r))"

definition exact :: "rat \<Rightarrow> jsnumber" where
  "exact q = Finite q"

fun js_neg :: "jsnumber \<Rightarrow> jsnumber" where
  "js_neg (Finite a) = Finite (- a)"
| "js_neg NaN = NaN"
| "js_neg PosInfinity = NegInfinity"
| "js_neg NegInfinity = PosInfinity"

fun js_add :: "(rat \<Rightarrow> jsnumber) \<Rightarrow> jsnumber \<Rightarrow> jsnumber \<Rightarrow> jsnumber" where
  "js_add rnd (Finite a) (Finite b) = rnd (a + b)"
| "js_add rnd NaN y = NaN"
| "js_add rnd x NaN = NaN"
| "js_add rnd PosInfinity NegInfinity = NaN"
| "js_add rnd NegInfinity PosInfinity = NaN"
| "js_add rnd PosInfinity y = PosInfinity"
| "js_add rnd x PosInfinity = PosInfinity"
| "js_add rnd NegInfinity y = NegInfinity"
| "js_add rnd x NegInfinity = NegInfinity"

definition js_sub :: "(rat \<Rightarrow> jsnumber) \<Rightarrow> jsnumber \<Rightarrow> jsnumber \<Rightarrow> jsnumber" where
  "js_sub rnd x y = js_add rnd x (js_neg y)"

fun js_gt :: "jsnumber \<Rightarrow> jsnumber \<Rightarrow> bool" where
  "js_gt (Finite a) (Finite b) = (b < a)"
| "js_gt NaN y = False"
| "js_gt x NaN = False"
| "js_gt PosInfinity PosInfinity = False"
| "js_gt PosInfinity y = True"
| "js_gt x PosInfinity = False"
| "js_gt NegInfinity y = False"
| "js_gt x NegInfinity = True"

fun js_div_count :: "(rat \<Rightarrow> jsnumber) \<Rightarrow> jsnumber \<Rightarrow> nat \<Rightarrow> jsnumber" where
  \<comment> \<open>\<open>x / n\<close> for a positive count \<open>n\<close>; the callers test \<open>n > 0\<close> first\<close>
  "js_div_count rnd (Finite a) n = rnd (a / of_nat n)"
| "js_div_count rnd NaN n = NaN"
| "js_div_count rnd PosInfinity n = PosInfinity"
| "js_div_count rnd NegInfinity n = NegInfinity"

subsection \<open>\<open>Number.parseFloat\<close>\<close>

text \<open>
  \<open>parseFloat\<close> skips leading white space, takes the longest prefix that is a
  \<open>StrDecimalLiteral\<close> (an optional sign, then \<open>Infinity\<close> or decimal digits with an optional
  fraction and an optional exponent) and returns the rounded value of that prefix, or \<open>NaN\<close>
  when there is no such prefix. What follows the prefix is ignored.
\<close>

definition is_digit :: "char \<Rightarrow> bool" where
  "is_digit c = (let n = of_char c :: nat in 48 \<le> n \<and> n \<le> 57)"

definition digits_val :: "string \<Rightarrow> int" where
  "digits_val ds = foldl (\<lambda>a c. 10 * a + (of_char c - 48)) 0 ds"

definition pow10 :: "int \<Rightarrow> rat" where
  "pow10 e = (if 0 \<le> e then 10 ^ nat e else 1 / 10 ^ nat (- e))"

definition split_sign :: "string \<Rightarrow> bool \<times> string" where
  "split_sign s =
     (case s of
        [] \<Rightarrow> (False, s)
      | c # t \<Rightarrow> if c = CHR ''-'' then (True, t) else if c = CHR ''+'' then (False, t) else (False, s))"

definition scan_exponent :: "string \<Rightarrow> int" where
  \<comment> \<open>the value of an \<open>ExponentPart\<close> at the start of the string, 0 when there is none\<close>
  "scan_exponent s =
     (case s of
        [] \<Rightarrow> 0
      | c # t \<Rightarrow>
          if c = CHR ''e'' \<or> c = CHR ''E''
          then (let (neg, u) = split_sign t; ds = takeWhile is_digit u
                in if ds = [] then 0
                   else if neg then - digits_val ds else digits_val ds)
          else 0)"

definition scan_unsigned :: "string \<Rightarrow> rat option" where
  \<comment> \<open>the value of the longest unsigned decimal literal at the start of the string\<close>
  "scan_unsigned s =
     (let ip = takeWhile is_digit s; r1 = dropWhile is_digit s
      in case r1 of
           [] \<Rightarrow> if ip = [] then None else Some (of_int (digits_val ip))
         | c # t \<Rightarrow>
             if c = CHR ''.''
             then (let fp = takeWhile is_digit t; r2 = dropWhile is_digit t
                   in if ip = [] \<and> fp = [] then None
                      else Some (of_int (digits_val (ip @ fp)) / 10 ^ length fp
                                 * pow10 (scan_exponent r2)))
             else if ip = [] then None
             else Some (of_int (digits_val ip) * pow10 (scan_exponent r1)))"

definition parseFloat :: "(rat \<Rightarrow> jsnumber) \<Rightarrow> string \<Rightarrow> jsnumber" where
  "parseFloat rnd s =
     (let (neg, u) = split_sign (dropWhile is_white_space s)
      in if take 8 u = ''Infinity'' then (if neg then NegInfinity else PosInfinity)
         else case scan_unsigned u of
                None \<Rightarrow> NaN
              | Some m \<Rightarrow> rnd (if neg then - m else m))"

subsection \<open>\<open>cleanCurrency\<close>\<close>

datatype currency_value = Str string | Num jsnumber

definition cleanCurrency :: "(rat \<Rightarrow> jsnumber) \<Rightarrow> currency_value \<Rightarrow> jsnumber" where
  "cleanCurrency rnd v =
     (case v of
        Num n \<Rightarrow> n
      | Str s \<Rightarrow>
          (let cleaned = filter (\<lambda>c. \<not> (c = CHR ''$'' \<or> c = CHR '','' \<or> is_white_space c)) s;
               n = parseFloat rnd cleaned
           in if isFinite n then n else Finite 0))"

section \<open>The Normalizer: \<open>normalizeRowKeys\<close>\<close>

text \<open>
  A raw record is given by the list \<open>Object.entries\<close> yields for it: its (name, value) pairs in
  property order. \<open>csvParse\<close> gives every field a string; the parameter type \<open>unknown\<close> also
  admits \<open>null\<close> and \<open>undefined\<close>, which \<open>v ?? ''\<close> replaces by the empty string. The result is
  an object with string values, modelled as a map.

  The result object \<open>out\<close> is created by \<open>{}\<close>, so it inherits the accessor \<open>__proto__\<close> of
  \<open>Object.prototype\<close>: assigning a string to \<open>out['__proto__']\<close> calls that setter, which
  ignores every value that is neither an object nor \<open>null\<close>, and no property is created.
\<close>

datatype jsvalue = JNullish | JString string

type_synonym raw_record = "(string \<times> jsvalue) list"

type_synonym normalized_record = "string \<rightharpoonup> string"

definition set_property :: "normalized_record \<Rightarrow> string \<Rightarrow> string \<Rightarrow> normalized_record" where
  "set_property out k v = (if k = ''__proto__'' then out else out(k \<mapsto> v))"

definition normalize_key :: "string \<Rightarrow> string" where
  "normalize_key k = toLowerCase (trim k)"

definition normalize_value :: "jsvalue \<Rightarrow> string" where
  "normalize_value v = trim (case v of JNullish \<Rightarrow> [] | JString s \<Rightarrow> s)"

definition normalizeRowKeys :: "raw_record \<Rightarrow> normalized_record" where
  \<comment> \<open>the same function in \<open>calculate/route.ts\<close>, \<open>crossref/route.ts\<close> and \<open>part_000\<close>\<close>
  "normalizeRowKeys input =
     fold (\<lambda>(k, v) out. set_property out (normalize_key k) (normalize_value v)) input Map.empty"

section \<open>The payout reports\<close>

text \<open>
  \<open>src/app/api/calculate/route.ts\<close> (the flat report) and \<open>src/unnamed/part_000\<close> (the report
  by location) run the same pipeline; the flat report alone drops the rows of a fixed list of
  locations. The list is a parameter \<open>excl\<close> of the model: \<open>EXCLUDED_LOCATIONS\<close> for the flat
  report, the empty list for the report by location.
\<close>

definition EXCLUDED_LOCATIONS :: "string list" where
  "EXCLUDED_LOCATIONS = [''Blu on the Hudson'', ''Chart House'', ''Haven'', ''Ruth's Chris'']"

definition EXCLUDED_EMPLOYEES :: "string list" where
  "EXCLUDED_EMPLOYEES =
     [''Nick C'', ''Troy'', ''Andy'', ''Arod'', ''Danny M'', ''Jay'', ''Totals'', '''']"

record emp_loc =
  employee :: string
  location :: string

record shift = emp_loc +
  tips :: jsnumber
  cost :: jsnumber

record shift_with_bonus = shift +
  bonus :: jsnumber

record owed_shift = shift_with_bonus +
  amount_owed :: jsnumber

definition text_field :: "normalized_record \<Rightarrow> string \<Rightarrow> string" where
  \<comment> \<open>\<open>(r[name] ?? '').toString().trim()\<close>\<close>
  "text_field r name = trim (case r name of None \<Rightarrow> [] | Some s \<Rightarrow> s)"

definition currency_field :: "normalized_record \<Rightarrow> string \<Rightarrow> currency_value" where
  \<comment> \<open>\<open>r[name] ?? 0\<close>\<close>
  "currency_field r name = (case r name of None \<Rightarrow> Num (Finite 0) | Some s \<Rightarrow> Str s)"

definition keep_row :: "string list \<Rightarrow> normalized_record \<Rightarrow> bool" where
  "keep_row excl r =
     (let employee = text_field r ''employee''; location = text_field r ''location''
      in if employee = [] then False
         else if employee \<in> set EXCLUDED_EMPLOYEES then False
         else if location \<in> set excl then False
         else True)"

definition to_shift :: "(rat \<Rightarrow> jsnumber) \<Rightarrow> normalized_record \<Rightarrow> shift" where
  "to_shift rnd r =
     \<lparr>employee = text_field r ''employee'', location = text_field r ''location'',
      tips = cleanCurrency rnd (currency_field r ''tips''),
      cost = cleanCurrency rnd (currency_field r ''cost'')\<rparr>"

definition filtered :: "(rat \<Rightarrow> jsnumber) \<Rightarrow> string list \<Rightarrow> normalized_record list \<Rightarrow> shift list" where
  "filtered rnd excl rows = map (to_shift rnd) (filter (keep_row excl) rows)"

definition add_bonus :: "shift \<Rightarrow> shift_with_bonus" where
  "add_bonus row =
     \<lparr>employee = employee row, location = location row, tips = tips row, cost = cost row,
      bonus = (if location row = ''Fleming's Condo'' \<and> js_gt (cost row) (tips row)
               then Finite (27 / 2) else Finite 0)\<rparr>"

definition withBonus :: "shift list \<Rightarrow> shift_with_bonus list" where
  "withBonus rows = map add_bonus rows"

definition add_amount_owed :: "(rat \<Rightarrow> jsnumber) \<Rightarrow> shift_with_bonus \<Rightarrow> owed_shift" where
  "add_amount_owed rnd r =
     \<lparr>employee = employee r, location = location r, tips = tips r, cost = cost r,
      bonus = bonus r,
      amount_owed = js_add rnd (js_sub rnd (cost r) (tips r)) (bonus r)\<rparr>"

definition source :: "(rat \<Rightarrow> jsnumber) \<Rightarrow> shift_with_bonus list \<Rightarrow> owed_shift list" where
  "source rnd rows = map (add_amount_owed rnd) (filter (\<lambda>r. js_gt (cost r) (tips r)) rows)"

definition owed_shifts ::
  "(rat \<Rightarrow> jsnumber) \<Rightarrow> string list \<Rightarrow> raw_record list \<Rightarrow> owed_shift list" where
  \<comment> \<open>parsed rows to \<open>source\<close>, the steps shared by both reports\<close>
  "owed_shifts rnd excl parsed =
     source rnd (withBonus (filtered rnd excl (map normalizeRowKeys parsed)))"

subsection \<open>Grouping, sorting and totals\<close>

text \<open>
  A JavaScript \<open>Map\<close> iterates in insertion order: it is an association list in which \<open>set\<close>
  replaces the value of a key that is present, in place, and appends a new key at the end.
  \<open>Array.prototype.sort\<close> is a stable sort by the comparator (insertion sort gives its result
  for every comparator that is a total preorder); the comparator of both reports is
  \<open>localeCompare\<close>, a function of the platform that the model takes as a parameter.
\<close>

fun map_set :: "('k \<times> 'v) list \<Rightarrow> 'k \<Rightarrow> 'v \<Rightarrow> ('k \<times> 'v) list" where
  "map_set [] k v = [(k, v)]"
| "map_set ((k', v') # m) k v = (if k' = k then (k, v) # m else (k', v') # map_set m k v)"

fun insert_by :: "('a \<Rightarrow> 'a \<Rightarrow> int) \<Rightarrow> 'a \<Rightarrow> 'a list \<Rightarrow> 'a list" where
  "insert_by cmp x [] = [x]"
| "insert_by cmp x (y # ys) = (if cmp x y \<le> 0 then x # y # ys else y # insert_by cmp x ys)"

definition sort_by :: "('a \<Rightarrow> 'a \<Rightarrow> int) \<Rightarrow> 'a list \<Rightarrow> 'a list" where
  "sort_by cmp xs = foldr (insert_by cmp) xs []"

fun code_unit_compare :: "string \<Rightarrow> string \<Rightarrow> int" where
  "code_unit_compare [] [] = 0"
| "code_unit_compare [] (y # ys) = - 1"
| "code_unit_compare (x # xs) [] = 1"
| "code_unit_compare (x # xs) (y # ys) =
     (if (of_char x :: nat) < of_char y then - 1
      else if (of_char y :: nat) < of_char x then 1
      else code_unit_compare xs ys)"

definition letter_compare :: "string \<Rightarrow> string \<Rightarrow> int" where
  \<comment> \<open>a concrete comparator for the examples, the order \<open>localeCompare\<close> gives to names made of
      ASCII letters: alphabetical without regard to letter case and, between names that
      differ in letter case only, the lower-case letter first\<close>
  "letter_compare a b =
     (let c = code_unit_compare (toLowerCase a) (toLowerCase b)
      in if c \<noteq> 0 then c else code_unit_compare b a)"

record agg =
  total :: jsnumber
  count :: nat

record summary_row =
  Employee :: string
  TotalAmountOwed :: jsnumber
  ShiftsThatWereOwed :: nat
  AverageOwedPerShift :: jsnumber

record report =
  summaryRows :: "summary_row list"
  totalAmount :: jsnumber
  totalShifts :: nat
  totalAvg :: jsnumber

definition add_to_group ::
  "(rat \<Rightarrow> jsnumber) \<Rightarrow> string \<Rightarrow> jsnumber \<Rightarrow> (string \<times> agg) list \<Rightarrow> (string \<times> agg) list" where
  \<comment> \<open>one round of the loop \<open>for (const r of source)\<close>, for the employee and amount of \<open>r\<close>\<close>
  "add_to_group rnd emp amount m =
     (let cur = (case map_of m emp of None \<Rightarrow> \<lparr>total = Finite 0, count = 0\<rparr> | Some c \<Rightarrow> c)
      in map_set m emp \<lparr>total = js_add rnd (total cur) amount, count = count cur + 1\<rparr>)"

definition byEmployee ::
  "(rat \<Rightarrow> jsnumber) \<Rightarrow> ('r \<Rightarrow> string) \<Rightarrow> ('r \<Rightarrow> jsnumber) \<Rightarrow> 'r list \<Rightarrow> (string \<times> agg) list" where
  "byEmployee rnd emp amount rows = fold (\<lambda>r m. add_to_group rnd (emp r) (amount r) m) rows []"

definition to_summary_row :: "(rat \<Rightarrow> jsnumber) \<Rightarrow> string \<times> agg \<Rightarrow> summary_row" where
  "to_summary_row rnd = (\<lambda>(emp, a).
     \<lparr>Employee = emp, TotalAmountOwed = total a, ShiftsThatWereOwed = count a,
      AverageOwedPerShift = (if count a > 0 then js_div_count rnd (total a) (count a) else Finite 0)\<rparr>)"

definition aggregate ::
  "(rat \<Rightarrow> jsnumber) \<Rightarrow> (string \<Rightarrow> string \<Rightarrow> int) \<Rightarrow> ('r \<Rightarrow> string) \<Rightarrow> ('r \<Rightarrow> jsnumber) \<Rightarrow> 'r list
     \<Rightarrow> report" where
  \<comment> \<open>grouping by employee, the sorted summary rows and the overall totals\<close>
  "aggregate rnd localeCompare emp amount rows =
     (let amt = foldl (\<lambda>s r. js_add rnd s (amount r)) (Finite 0) rows;
          n = length rows
      in \<lparr>summaryRows =
            sort_by (\<lambda>a b. localeCompare (Employee a) (Employee b))
              (map (to_summary_row rnd) (byEmployee rnd emp amount rows)),
          totalAmount = amt,
          totalShifts = n,
          totalAvg = (if n > 0 then js_div_count rnd amt n else Finite 0)\<rparr>)"

definition computePayout ::
  "(rat \<Rightarrow> jsnumber) \<Rightarrow> (string \<Rightarrow> string \<Rightarrow> int) \<Rightarrow> string list \<Rightarrow> raw_record list \<Rightarrow> report" where
  \<comment> \<open>\<open>POST\<close> of both payout files; the code has the instances \<open>excl = EXCLUDED_LOCATIONS\<close>
      (\<open>calculate/route.ts\<close>) and \<open>excl = []\<close> (\<open>part_000\<close>, which has no location test)\<close>
  "computePayout rnd localeCompare excl parsed =
     aggregate rnd localeCompare employee amount_owed (owed_shifts rnd excl parsed)"

subsection \<open>The report by location\<close>






subsection \<open>The script of the page: \<open>recompute\<close>\<close>



definition is_array_index :: "string \<Rightarrow> bool" where
  \<comment> \<open>a canonical numeric string below \<open>2 ^ 32 - 1\<close>\<close>
  "is_array_index s =
     (s \<noteq> [] \<and> list_all is_digit s \<and> (s = ''0'' \<or> hd s \<noteq> CHR ''0'')
      \<and> digits_val s < 4294967295)"

definition own_keys_order :: "(string \<times> 'v) list \<Rightarrow> (string \<times> 'v) list" where
  \<comment> \<open>the properties of an object, given in the order of their creation, in the order in
      which \<open>Object.keys\<close> lists them\<close>
  "own_keys_order m =
     sort_by (\<lambda>a b. digits_val (fst a) - digits_val (fst b)) (filter (\<lambda>p. is_array_index (fst p)) m)
       @ filter (\<lambda>p. \<not> is_array_index (fst p)) m"

record client_state =
  groups :: "(string \<times> agg) list"
  totAmount :: jsnumber
  totShifts :: nat




section \<open>The missed-shift report: \<open>crossref/route.ts\<close>\<close>

text \<open>
  Reading a property that a normalized record lacks gives \<open>undefined\<close> (\<open>None\<close>). A property
  value is truthy when it is a non-empty string; a template literal renders \<open>undefined\<close> as
  the text \<open>undefined\<close>.
\<close>

definition KEY_COLUMNS :: "string list" where
  "KEY_COLUMNS = [''employee'', ''date'', ''location'']"

definition IGNORED_EMPLOYEES :: "string list" where
  "IGNORED_EMPLOYEES = map toLowerCase
     [''Luke Whelan'', ''Tony'', ''Arod'', ''Danny M'', ''Aquib'', ''Nick C'', ''Andy'', ''Troy'',
      ''Rony'', ''Alexander M Kiwowicz'', ''Michael C'', ''Jay'', ''Dave'', ''Nick T'']"

definition IGNORED_LOCATIONS :: "string list" where
  "IGNORED_LOCATIONS = map toLowerCase
     [''Blu on the Hudson'', ''Ruth's Chris'', ''Haven'', ''Chart House'', ''Fleming's Edgewater'']"

definition SCHEDULED_START_CANDIDATES :: "string list" where
  "SCHEDULED_START_CANDIDATES =
     [''start_time'', ''start time'', ''start'', ''scheduled_start'', ''scheduled start'',
      ''shift start'']"

definition SCHEDULED_END_CANDIDATES :: "string list" where
  "SCHEDULED_END_CANDIDATES =
     [''end_time'', ''end time'', ''end'', ''scheduled_end'', ''scheduled end'', ''shift end'']"

definition truthy :: "string option \<Rightarrow> bool" where
  "truthy v = (case v of None \<Rightarrow> False | Some s \<Rightarrow> s \<noteq> [])"

definition template_text :: "string option \<Rightarrow> string" where
  "template_text v = (case v of None \<Rightarrow> ''undefined'' | Some s \<Rightarrow> s)"

definition findFirstExistingColumn :: "normalized_record \<Rightarrow> string list \<Rightarrow> string option" where
  "findFirstExistingColumn row candidates = List.find (\<lambda>cand. row cand \<noteq> None) candidates"

definition keyOf :: "normalized_record \<Rightarrow> string" where
  "keyOf r =
     template_text (r ''employee'') @ ''||'' @ template_text (r ''date'') @ ''||''
       @ template_text (r ''location'')"

definition not_ignored :: "string list \<Rightarrow> string option \<Rightarrow> bool" where
  \<comment> \<open>\<open>!v || !IGNORED.has(v.toLowerCase())\<close>\<close>
  "not_ignored ignored v =
     (\<not> truthy v \<or> (case v of None \<Rightarrow> True | Some s \<Rightarrow> toLowerCase s \<notin> set ignored))"

definition keep_record :: "normalized_record \<Rightarrow> bool" where
  "keep_record r =
     (not_ignored IGNORED_EMPLOYEES (r ''employee'') \<and> not_ignored IGNORED_LOCATIONS (r ''location''))"

definition has_key_columns :: "normalized_record \<Rightarrow> bool" where
  \<comment> \<open>\<open>KEY_COLUMNS.every(k => r[k])\<close>\<close>
  "has_key_columns r = list_all (\<lambda>k. truthy (r k)) KEY_COLUMNS"

definition workedSet :: "normalized_record list \<Rightarrow> string set" where
  "workedSet filteredTimesheets = set (map keyOf (filter has_key_columns filteredTimesheets))"

type_synonym missed_entry = "(string \<times> string option) list"

record missed_state =
  missedCount :: nat
  missedByEmployee :: "(string \<times> missed_entry list) list"

definition make_entry :: "string option \<Rightarrow> string option \<Rightarrow> normalized_record \<Rightarrow> missed_entry" where
  "make_entry startCol endCol r =
     [(''date'', r ''date''), (''location'', r ''location'')]
       @ (case (startCol, endCol) of
            (Some s, Some e) \<Rightarrow> [(''start'', r s), (''end'', r e)]
          | _ \<Rightarrow> [])"

definition record_missed ::
  "string option \<Rightarrow> string option \<Rightarrow> normalized_record \<Rightarrow> missed_state \<Rightarrow> missed_state" where
  \<comment> \<open>the body of \<open>if (!workedSet.has(keyOf(r)))\<close>; the loop reaches it only for records
      whose key columns are non-empty strings, so \<open>r['employee']\<close> is a string here\<close>
  "record_missed startCol endCol r st =
     (let emp = template_text (r ''employee'');
          list = (case map_of (missedByEmployee st) emp of None \<Rightarrow> [] | Some l \<Rightarrow> l)
      in \<lparr>missedCount = missedCount st + 1,
          missedByEmployee =
            map_set (missedByEmployee st) emp (list @ [make_entry startCol endCol r])\<rparr>)"

definition scan_scheduled ::
  "string set \<Rightarrow> string option \<Rightarrow> string option \<Rightarrow> normalized_record \<Rightarrow> missed_state
     \<Rightarrow> missed_state" where
  \<comment> \<open>one round of the loop \<open>for (const r of filteredScheduled)\<close>\<close>
  "scan_scheduled worked startCol endCol r st =
     (if \<not> has_key_columns r then st
      else if keyOf r \<notin> worked then record_missed startCol endCol r st
      else st)"

definition start_column :: "normalized_record list \<Rightarrow> string option" where
  "start_column filteredScheduled =
     (case filteredScheduled of
        [] \<Rightarrow> None
      | r # _ \<Rightarrow> findFirstExistingColumn r SCHEDULED_START_CANDIDATES)"

definition end_column :: "normalized_record list \<Rightarrow> string option" where
  "end_column filteredScheduled =
     (case filteredScheduled of
        [] \<Rightarrow> None
      | r # _ \<Rightarrow> findFirstExistingColumn r SCHEDULED_END_CANDIDATES)"

definition filteredRows :: "raw_record list \<Rightarrow> normalized_record list" where
  \<comment> \<open>\<open>filteredScheduled\<close> and \<open>filteredTimesheets\<close>: the same steps on either file\<close>
  "filteredRows parsed = filter keep_record (map normalizeRowKeys parsed)"

definition findMissedShifts :: "raw_record list \<Rightarrow> raw_record list \<Rightarrow> missed_state" where
  \<comment> \<open>\<open>POST\<close> of \<open>crossref/route.ts\<close>, from the parsed files to the end of the loop\<close>
  "findMissedShifts scheduledParsed timesheetsParsed =
     (let filteredScheduled = filteredRows scheduledParsed;
          filteredTimesheets = filteredRows timesheetsParsed;
          startCol = start_column filteredScheduled;
          endCol = end_column filteredScheduled
      in fold (scan_scheduled (workedSet filteredTimesheets) startCol endCol) filteredScheduled
           \<lparr>missedCount = 0, missedByEmployee = []\<rparr>)"

section \<open>The currency parser\<close>


lemma cleanCurrency_leading_number: "cleanCurrency binary64 (Str ''12abc'') = Finite 12"
  by code_simp

section \<open>The payout pipeline\<close>

text \<open>
  C2. A filtered row is in \<open>source\<close> exactly when its cost is greater than its tips. Its bonus
  is 13.5 when its location is \<open>Fleming's Condo\<close> (and its cost is greater than its tips) and
  0 otherwise, and its \<open>amount_owed\<close> is \<open>cost - tips + bonus\<close>. With cost 20 and tips 5 the
  amount owed is 28.5 at \<open>Fleming's Condo\<close> and 15 elsewhere.
\<close>

theorem owed_shift_rule:
  "bonus (add_bonus row) =
     (if location row = ''Fleming's Condo'' \<and> js_gt (cost row) (tips row)
      then Finite (27 / 2) else Finite 0)
   \<and> source rnd (withBonus rows) =
       map (\<lambda>r. \<lparr>employee = employee r, location = location r, tips = tips r, cost = cost r,
                  bonus = (if location r = ''Fleming's Condo'' then Finite (27 / 2) else Finite 0),
                  amount_owed =
                    js_add rnd (js_sub rnd (cost r) (tips r))
                      (if location r = ''Fleming's Condo'' then Finite (27 / 2) else Finite 0)\<rparr>)
         (filter (\<lambda>r. js_gt (cost r) (tips r)) rows)
   \<and> map (\<lambda>r. (bonus r, amount_owed r))
         (owed_shifts binary64 EXCLUDED_LOCATIONS
            [[(''employee'', JString ''Ann''), (''location'', JString ''Fleming's Condo''),
              (''tips'', JString ''5''), (''cost'', JString ''20'')],
             [(''employee'', JString ''Ann''), (''location'', JString ''Main Street''),
              (''tips'', JString ''5''), (''cost'', JString ''20'')],
             [(''employee'', JString ''Ann''), (''location'', JString ''Fleming's Condo''),
              (''tips'', JString ''20''), (''cost'', JString ''20'')]])
       = [(Finite (27 / 2), Finite (57 / 2)), (Finite 0, Finite 15)]"
proof -
  have b: "bonus (add_bonus row) =
     (if location row = ''Fleming's Condo'' \<and> js_gt (cost row) (tips row)
      then Finite (27 / 2) else Finite 0)"
    by (simp add: add_bonus_def)
  have s: "source rnd (withBonus rows) =
       map (\<lambda>r. \<lparr>employee = employee r, location = location r, tips = tips r, cost = cost r,
                  bonus = (if location r = ''Fleming's Condo'' then Finite (27 / 2) else Finite 0),
                  amount_owed =
                    js_add rnd (js_sub rnd (cost r) (tips r))
                      (if location r = ''Fleming's Condo'' then Finite (27 / 2) else Finite 0)\<rparr>)
         (filter (\<lambda>r. js_gt (cost r) (tips r)) rows)"
    by (induction rows) (simp_all add: source_def withBonus_def add_bonus_def add_amount_owed_def)
  have e: "map (\<lambda>r. (bonus r, amount_owed r))
         (owed_shifts binary64 EXCLUDED_LOCATIONS
            [[(''employee'', JString ''Ann''), (''location'', JString ''Fleming's Condo''),
              (''tips'', JString ''5''), (''cost'', JString ''20'')],
             [(''employee'', JString ''Ann''), (''location'', JString ''Main Street''),
              (''tips'', JString ''5''), (''cost'', JString ''20'')],
             [(''employee'', JString ''Ann''), (''location'', JString ''Fleming's Condo''),
              (''tips'', JString ''20''), (''cost'', JString ''20'')]])
       = [(Finite (27 / 2), Finite (57 / 2)), (Finite 0, Finite 15)]"
    by code_simp
  from b s e show ?thesis by (intro conjI)
qed
section \<open>The missed-shift report: the anti-join\<close>

lemma map_of_map_set: "map_of (map_set m k v) = (map_of m)(k \<mapsto> v)"
  by (induction m) auto

lemma has_key_columns_iff:
  "has_key_columns r =
     (truthy (r ''employee'') \<and> truthy (r ''date'') \<and> truthy (r ''location''))"
  by (simp add: has_key_columns_def KEY_COLUMNS_def)

lemma map_set_lengths:
  "(\<Sum>p\<leftarrow>map_set m k ((case map_of m k of None \<Rightarrow> [] | Some l \<Rightarrow> l) @ [e]). length (snd p))
     = (\<Sum>p\<leftarrow>m. length (snd p)) + 1"
  by (induction m) auto

lemma scan_scheduled_count:
  assumes "missedCount st = (\<Sum>p\<leftarrow>missedByEmployee st. length (snd p))"
  shows "missedCount (scan_scheduled w sc ec r st)
           = (\<Sum>p\<leftarrow>missedByEmployee (scan_scheduled w sc ec r st). length (snd p))"
  using assms by (simp add: scan_scheduled_def record_missed_def Let_def map_set_lengths)

lemma fold_scan_scheduled_count:
  "missedCount st = (\<Sum>p\<leftarrow>missedByEmployee st. length (snd p)) \<Longrightarrow>
   missedCount (fold (scan_scheduled w sc ec) rs st)
     = (\<Sum>p\<leftarrow>missedByEmployee (fold (scan_scheduled w sc ec) rs st). length (snd p))"
proof (induction rs arbitrary: st)
  case Nil
  then show ?case by simp
next
  case (Cons r rs)
  from Cons.prems have "missedCount (scan_scheduled w sc ec r st)
      = (\<Sum>p\<leftarrow>missedByEmployee (scan_scheduled w sc ec r st). length (snd p))"
    by (rule scan_scheduled_count)
  then show ?case by (simp add: Cons.IH)
qed

lemma scan_scheduled_number:
  "missedCount (scan_scheduled w sc ec r st)
     = missedCount st + (if has_key_columns r \<and> keyOf r \<notin> w then 1 else 0)"
  by (simp add: scan_scheduled_def record_missed_def Let_def)

lemma fold_scan_scheduled_number:
  "missedCount (fold (scan_scheduled w sc ec) rs st)
     = missedCount st + length (filter (\<lambda>r. has_key_columns r \<and> keyOf r \<notin> w) rs)"
  by (induction rs arbitrary: st) (simp_all add: scan_scheduled_number)

lemma scan_scheduled_groups:
  "map_of (missedByEmployee (scan_scheduled w sc ec r st)) emp =
     (if template_text (r ''employee'') = emp \<and> has_key_columns r \<and> keyOf r \<notin> w
      then Some ((case map_of (missedByEmployee st) emp of None \<Rightarrow> [] | Some l \<Rightarrow> l)
                 @ [make_entry sc ec r])
      else map_of (missedByEmployee st) emp)"
  by (simp add: scan_scheduled_def record_missed_def Let_def map_of_map_set)

lemma fold_scan_scheduled_groups:
  "map_of (missedByEmployee (fold (scan_scheduled w sc ec) rs st)) emp =
     (let new = map (make_entry sc ec)
                  (filter (\<lambda>r. template_text (r ''employee'') = emp
                                \<and> has_key_columns r \<and> keyOf r \<notin> w) rs)
      in if new = [] then map_of (missedByEmployee st) emp
         else Some ((case map_of (missedByEmployee st) emp of None \<Rightarrow> [] | Some l \<Rightarrow> l) @ new))"
proof (induction rs arbitrary: st)
  case Nil
  then show ?case by simp
next
  case (Cons r rs)
  show ?case
    by (simp add: Cons.IH scan_scheduled_groups Let_def)
qed

text \<open>
  C10. The reported count of missed shifts is the number of entries emitted: the sum, over
  the employee groups, of the number of entries of the group.
\<close>

theorem missedCount_is_number_of_entries:
  "missedCount (findMissedShifts scheduledParsed timesheetsParsed)
     = (\<Sum>p\<leftarrow>missedByEmployee (findMissedShifts scheduledParsed timesheetsParsed).
          length (snd p))"
  unfolding findMissedShifts_def Let_def
  by (rule fold_scan_scheduled_count) simp

text \<open>
  What the loop computes. The entries reported under an employee are, in the order of the
  scheduled file, the entries of the filtered scheduled records of that employee whose three
  key fields are all non-empty and whose text \<open>keyOf\<close> is not the text \<open>keyOf\<close> of any filtered
  timesheet record with three non-empty key fields. The reported count is the number of
  those scheduled records.
\<close>

lemma missed_shifts_anti_join:
  "map_of (missedByEmployee (findMissedShifts scheduledParsed timesheetsParsed)) emp =
     (let missed =
            filter (\<lambda>r. template_text (r ''employee'') = emp
                        \<and> truthy (r ''employee'') \<and> truthy (r ''date'') \<and> truthy (r ''location'')
                        \<and> \<not> (\<exists>t \<in> set (filteredRows timesheetsParsed).
                                truthy (t ''employee'') \<and> truthy (t ''date'')
                                \<and> truthy (t ''location'') \<and> keyOf t = keyOf r))
              (filteredRows scheduledParsed)
      in if missed = [] then None
         else Some (map (make_entry (start_column (filteredRows scheduledParsed))
                           (end_column (filteredRows scheduledParsed))) missed))
   \<and> missedCount (findMissedShifts scheduledParsed timesheetsParsed) =
       length (filter (\<lambda>r. truthy (r ''employee'') \<and> truthy (r ''date'') \<and> truthy (r ''location'')
                        \<and> \<not> (\<exists>t \<in> set (filteredRows timesheetsParsed).
                                truthy (t ''employee'') \<and> truthy (t ''date'')
                                \<and> truthy (t ''location'') \<and> keyOf t = keyOf r))
                 (filteredRows scheduledParsed))"
proof -
  have w: "keyOf r \<notin> workedSet ts \<longleftrightarrow>
      \<not> (\<exists>t \<in> set ts. truthy (t ''employee'') \<and> truthy (t ''date'')
                        \<and> truthy (t ''location'') \<and> keyOf t = keyOf r)" for r ts
    by (auto simp: workedSet_def has_key_columns_iff image_iff)
  show ?thesis
    unfolding findMissedShifts_def Let_def
    by (simp add: fold_scan_scheduled_groups fold_scan_scheduled_number w has_key_columns_iff
        Let_def cong: conj_cong)
qed


lemma anti_join_example:
  "findMissedShifts
     [[(''Employee'', JString ''A''), (''Date'', JString ''2024-01-01''), (''Location'', JString ''X'')]]
     []
   = \<lparr>missedCount = 1,
      missedByEmployee = [(''A'', [[(''date'', Some ''2024-01-01''), (''location'', Some ''X'')]])]\<rparr>
   \<and> findMissedShifts
     [[(''Employee'', JString ''A''), (''Date'', JString ''2024-01-01''), (''Location'', JString ''X'')]]
     [[(''Location'', JString ''X''), (''Employee'', JString ''A''), (''Date'', JString ''2024-01-01'')]]
   = \<lparr>missedCount = 0, missedByEmployee = []\<rparr>"
  by code_simp

text \<open>
  C1. A scheduled record with three non-empty key fields is to be reported as missed when no
  timesheet record has the same employee, date and location. \<open>keyOf\<close> joins the three values
  with \<open>||\<close> and does not escape a \<open>||\<close> inside a value, so two different triples can give the
  same text: the scheduled record below passes the filter, has its three key fields, differs
  from the only timesheet record in employee and in date, and is not reported.
\<close>

theorem composite_key_collision_counterexample:
  "findMissedShifts
     [[(''employee'', JString ''a||b''), (''date'', JString ''c''), (''location'', JString ''d'')]]
     [[(''employee'', JString ''a''), (''date'', JString ''b||c''), (''location'', JString ''d'')]]
   = \<lparr>missedCount = 0, missedByEmployee = []\<rparr>
   \<and> map (\<lambda>r. (r ''employee'', r ''date'', r ''location''))
       (filteredRows
          [[(''employee'', JString ''a||b''), (''date'', JString ''c''), (''location'', JString ''d'')]])
     = [(Some ''a||b'', Some ''c'', Some ''d'')]
   \<and> map (\<lambda>r. (r ''employee'', r ''date'', r ''location''))
       (filteredRows
          [[(''employee'', JString ''a''), (''date'', JString ''b||c''), (''location'', JString ''d'')]])
     = [(Some ''a'', Some ''b||c'', Some ''d'')]"
  by code_simp

lemma separator_split:
  "CHR ''|'' \<notin> set a \<Longrightarrow> CHR ''|'' \<notin> set a' \<Longrightarrow> a @ ''||'' @ r = a' @ ''||'' @ r'
     \<Longrightarrow> a = a' \<and> r = r'"
proof (induction a arbitrary: a')
  case Nil
  then show ?case by (cases a') auto
next
  case (Cons x xs)
  then show ?case by (cases a') auto
qed

lemma keyOf_eq_iff:
  assumes "r ''employee'' = Some e" "r ''date'' = Some d" "r ''location'' = Some l"
    and "t ''employee'' = Some e'" "t ''date'' = Some d'" "t ''location'' = Some l'"
    and "CHR ''|'' \<notin> set e \<union> set d \<union> set e' \<union> set d'"
  shows "keyOf t = keyOf r \<longleftrightarrow> e' = e \<and> d' = d \<and> l' = l"
proof
  assume "keyOf t = keyOf r"
  with assms have k: "e' @ ''||'' @ (d' @ ''||'' @ l') = e @ ''||'' @ (d @ ''||'' @ l)"
    by (simp add: keyOf_def template_text_def)
  from assms(7) have *: "CHR ''|'' \<notin> set e'" "CHR ''|'' \<notin> set e" "CHR ''|'' \<notin> set d'" "CHR ''|'' \<notin> set d"
    by auto
  from separator_split[OF *(1,2) k] have 1: "e' = e" and k2: "d' @ ''||'' @ l' = d @ ''||'' @ l"
    by auto
  from separator_split[OF *(3,4) k2] 1 show "e' = e \<and> d' = d \<and> l' = l"
    by auto
next
  assume "e' = e \<and> d' = d \<and> l' = l"
  with assms show "keyOf t = keyOf r"
    by (simp add: keyOf_def template_text_def)
qed
lemma length_toLowerCase: "length (toLowerCase s) = length s"
  by (simp add: toLowerCase_def)

lemma toLowerCase_Nil_iff: "toLowerCase s = [] \<longleftrightarrow> s = []"
  by (simp add: toLowerCase_def)

lemma not_ignored_lower:
  "map_option toLowerCase a = map_option toLowerCase b \<Longrightarrow> not_ignored ig a = not_ignored ig b"
  by (cases a; cases b) (auto simp: not_ignored_def truthy_def toLowerCase_def)

lemma truthy_lower:
  "map_option toLowerCase a = map_option toLowerCase b \<Longrightarrow> truthy a = truthy b"
  by (cases a; cases b) (auto simp: truthy_def toLowerCase_def)

lemma keyOf_same_lengths:
  assumes "map_option toLowerCase (a ''employee'') = map_option toLowerCase (b ''employee'')"
    and "map_option toLowerCase (a ''date'') = map_option toLowerCase (b ''date'')"
    and "map_option toLowerCase (a ''location'') = map_option toLowerCase (b ''location'')"
  shows "keyOf b = keyOf a \<longleftrightarrow>
           a ''employee'' = b ''employee'' \<and> a ''date'' = b ''date'' \<and> a ''location'' = b ''location''"
proof -
  have len: "length (template_text x) = length (template_text y)"
    if "map_option toLowerCase x = map_option toLowerCase y" for x y
  proof (cases x)
    case None
    with that show ?thesis by (cases y) auto
  next
    case (Some u)
    with that obtain v where v: "y = Some v" "toLowerCase u = toLowerCase v"
      by (cases y) auto
    from v(2) have "length u = length v"
      by (metis length_toLowerCase)
    with Some v show ?thesis by (simp add: template_text_def)
  qed
  have eq: "template_text x = template_text y \<longleftrightarrow> x = y"
    if "map_option toLowerCase x = map_option toLowerCase y" for x y
    using that by (cases x; cases y) (auto simp: template_text_def)
  have "keyOf b = keyOf a \<longleftrightarrow>
          template_text (b ''employee'') = template_text (a ''employee'')
          \<and> template_text (b ''date'') = template_text (a ''date'')
          \<and> template_text (b ''location'') = template_text (a ''location'')"
    unfolding keyOf_def
    using len[OF assms(1)] len[OF assms(2)] len[OF assms(3)]
    by simp
  also have "\<dots> \<longleftrightarrow>
          a ''employee'' = b ''employee'' \<and> a ''date'' = b ''date'' \<and> a ''location'' = b ''location''"
    using eq[OF assms(1)] eq[OF assms(2)] eq[OF assms(3)] by metis
  finally show ?thesis .
qed

text \<open>
  C6, as the code has it. The reconciliation key is built from the field values as the
  Normalizer leaves them: trimmed, with their letter case kept. For a scheduled record that
  passes the filter and has its three key fields, and a timesheet record whose key values
  agree with its own up to letter case, the scheduled record is matched (not reported) when
  the key values are equal, and reported as missed when they differ in letter case.
\<close>

theorem reconciliation_is_case_sensitive:
  assumes "keep_record (normalizeRowKeys s)"
    and "has_key_columns (normalizeRowKeys s)"
    and "\<forall>k \<in> set KEY_COLUMNS.
           map_option toLowerCase (normalizeRowKeys s k) = map_option toLowerCase (normalizeRowKeys t k)"
  shows "missedCount (findMissedShifts [s] [t]) =
           (if \<forall>k \<in> set KEY_COLUMNS. normalizeRowKeys s k = normalizeRowKeys t k then 0 else 1)"
proof -
  define a where "a = normalizeRowKeys s"
  define b where "b = normalizeRowKeys t"
  from assms(3) have low:
    "map_option toLowerCase (a ''employee'') = map_option toLowerCase (b ''employee'')"
    "map_option toLowerCase (a ''date'') = map_option toLowerCase (b ''date'')"
    "map_option toLowerCase (a ''location'') = map_option toLowerCase (b ''location'')"
    by (simp_all add: KEY_COLUMNS_def a_def b_def)
  from assms(1) have ka: "keep_record a" by (simp add: a_def)
  from assms(2) have ha: "has_key_columns a" by (simp add: a_def)
  have kb: "keep_record b"
    using ka not_ignored_lower[OF low(1)] not_ignored_lower[OF low(3)]
    by (simp add: keep_record_def)
  have hb: "has_key_columns b"
    using ha truthy_lower[OF low(1)] truthy_lower[OF low(2)] truthy_lower[OF low(3)]
    by (simp add: has_key_columns_iff)
  have ws: "workedSet [b] = {keyOf b}"
    using hb by (simp add: workedSet_def)
  have "missedCount (findMissedShifts [s] [t]) = (if keyOf b = keyOf a then 0 else 1)"
    using ka kb ha
    by (simp add: findMissedShifts_def filteredRows_def ws scan_scheduled_number
        Let_def a_def[symmetric] b_def[symmetric] eq_commute)
  also have "\<dots> = (if a ''employee'' = b ''employee'' \<and> a ''date'' = b ''date''
                      \<and> a ''location'' = b ''location'' then 0 else 1)"
    by (simp add: keyOf_same_lengths[OF low])
  finally show ?thesis
    by (simp add: KEY_COLUMNS_def a_def b_def)
qed

theorem reconciliation_is_case_sensitive_witness:
  "keep_record (normalizeRowKeys
      [(''Employee'', JString ''Alice''), (''Date'', JString ''2024-01-01''), (''Location'', JString ''X'')])
   \<and> has_key_columns (normalizeRowKeys
      [(''Employee'', JString ''Alice''), (''Date'', JString ''2024-01-01''), (''Location'', JString ''X'')])
   \<and> missedCount (findMissedShifts
        [[(''Employee'', JString ''Alice''), (''Date'', JString ''2024-01-01''), (''Location'', JString ''X'')]]
        [[(''Employee'', JString ''alice''), (''Date'', JString ''2024-01-01''), (''Location'', JString ''X'')]])
     = 1
   \<and> missedCount (findMissedShifts
        [[(''Employee'', JString ''Alice''), (''Date'', JString ''2024-01-01''), (''Location'', JString ''X'')]]
        [[(''Employee'', JString '' Alice ''), (''Date'', JString ''2024-01-01''), (''Location'', JString ''X'')]])
     = 0"
proof -
  let ?s = "[(''Employee'', JString ''Alice''), (''Date'', JString ''2024-01-01''), (''Location'', JString ''X'')]"
  let ?t = "[(''Employee'', JString ''alice''), (''Date'', JString ''2024-01-01''), (''Location'', JString ''X'')]"
  let ?u = "[(''Employee'', JString '' Alice ''), (''Date'', JString ''2024-01-01''), (''Location'', JString ''X'')]"
  have k: "keep_record (normalizeRowKeys ?s)" by code_simp
  have h: "has_key_columns (normalizeRowKeys ?s)" by code_simp
  have lt: "\<forall>k \<in> set KEY_COLUMNS.
      map_option toLowerCase (normalizeRowKeys ?s k) = map_option toLowerCase (normalizeRowKeys ?t k)"
    by code_simp
  have lu: "\<forall>k \<in> set KEY_COLUMNS.
      map_option toLowerCase (normalizeRowKeys ?s k) = map_option toLowerCase (normalizeRowKeys ?u k)"
    by code_simp
  have nt: "\<not> (\<forall>k \<in> set KEY_COLUMNS. normalizeRowKeys ?s k = normalizeRowKeys ?t k)"
    by code_simp
  have eu: "\<forall>k \<in> set KEY_COLUMNS. normalizeRowKeys ?s k = normalizeRowKeys ?u k"
    by code_simp
  from reconciliation_is_case_sensitive[OF k h lt] nt
  have 1: "missedCount (findMissedShifts [?s] [?t]) = 1" by simp
  from reconciliation_is_case_sensitive[OF k h lu] eu
  have 2: "missedCount (findMissedShifts [?s] [?u]) = 0" by simp
  from k h 1 2 show ?thesis by (intro conjI)
qed

theorem letter_case_counterexample:
  "findMissedShifts
     [[(''Employee'', JString ''Alice''), (''Date'', JString ''2024-01-01''), (''Location'', JString ''X'')]]
     [[(''Employee'', JString ''alice''), (''Date'', JString ''2024-01-01''), (''Location'', JString ''X'')]]
   = \<lparr>missedCount = 1,
      missedByEmployee = [(''Alice'', [[(''date'', Some ''2024-01-01''), (''location'', Some ''X'')]])]\<rparr>
   \<and> toLowerCase ''Alice'' = toLowerCase ''alice''
   \<and> normalizeRowKeys [(''Employee'', JString ''Alice'')] ''employee'' = Some ''Alice''"
  by code_simp


section \<open>The Normalizer: collisions and idempotence\<close>

lemma is_white_space_toLowerCase_char [simp]:
  "is_white_space (toLowerCase_char c) = is_white_space c"
  by (auto simp: is_white_space_def toLowerCase_char_def Let_def)

lemma toLowerCase_char_idem [simp]:
  "toLowerCase_char (toLowerCase_char c) = toLowerCase_char c"
  by (auto simp: toLowerCase_char_def Let_def)

lemma toLowerCase_idem [simp]: "toLowerCase (toLowerCase s) = toLowerCase s"
  by (simp add: toLowerCase_def)

lemma trim_toLowerCase: "trim (toLowerCase s) = toLowerCase (trim s)"
proof -
  have "is_white_space \<circ> toLowerCase_char = is_white_space"
    by (rule ext) simp
  then show ?thesis
    by (simp add: trim_def toLowerCase_def dropWhile_map rev_map)
qed

lemma trim_idem [simp]: "trim (trim s) = trim s"
proof -
  define t where "t = dropWhile is_white_space s"
  define u where "u = rev (dropWhile is_white_space (rev t))"
  have t: "t = [] \<or> \<not> is_white_space (hd t)"
    unfolding t_def by (metis hd_dropWhile)
  have "rev t = takeWhile is_white_space (rev t) @ dropWhile is_white_space (rev t)"
    by simp
  then have split: "t = u @ rev (takeWhile is_white_space (rev t))"
    unfolding u_def by (metis rev_append rev_rev_ident)
  have "dropWhile is_white_space u = u"
  proof (cases u)
    case Nil
    then show ?thesis by simp
  next
    case (Cons x xs)
    from split obtain w where "t = u @ w" ..
    with Cons have "hd t = x" "t \<noteq> []" by simp_all
    with t have "\<not> is_white_space x" by auto
    with Cons show ?thesis by simp
  qed
  moreover have "rev (dropWhile is_white_space (rev u)) = u"
    by (simp add: u_def)
  ultimately have "trim u = u"
    by (simp add: trim_def)
  moreover have "trim s = u"
    by (simp add: trim_def t_def u_def)
  ultimately show ?thesis by simp
qed

lemma normalize_key_idem [simp]: "normalize_key (normalize_key k) = normalize_key k"
  by (simp add: normalize_key_def trim_toLowerCase)

lemma normalize_value_idem [simp]: "normalize_value (JString (normalize_value v)) = normalize_value v"
  by (simp add: normalize_value_def)


lemma fold_set_property:
  "fold (\<lambda>(k, v) out. set_property out (normalize_key k) (normalize_value v)) input acc key =
     (if key = ''__proto__'' then acc key
      else case map_of (rev (map (\<lambda>(k, v). (normalize_key k, normalize_value v)) input)) key of
             None \<Rightarrow> acc key
           | Some v \<Rightarrow> Some v)"
proof (induction input arbitrary: acc)
  case Nil
  then show ?case by simp
next
  case (Cons x xs)
  let ?f = "\<lambda>(k, v) out. set_property out (normalize_key k) (normalize_value v)"
  let ?g = "\<lambda>(k, v). (normalize_key k, normalize_value v)"
  have "fold ?f (x # xs) acc key = fold ?f xs (?f x acc) key"
    by simp
  also have "\<dots> = (if key = ''__proto__'' then ?f x acc key
      else case map_of (rev (map ?g xs)) key of None \<Rightarrow> ?f x acc key | Some v \<Rightarrow> Some v)"
    by (rule Cons.IH)
  also have "\<dots> = (if key = ''__proto__'' then acc key
      else case map_of (rev (map ?g (x # xs))) key of None \<Rightarrow> acc key | Some v \<Rightarrow> Some v)"
    by (cases x) (simp add: set_property_def map_add_def split: option.splits)
  finally show ?case .
qed

lemma normalizeRowKeys_lookup:
  "normalizeRowKeys input key =
     (if key = ''__proto__'' then None
      else map_of (rev (map (\<lambda>(k, v). (normalize_key k, normalize_value v)) input)) key)"
  by (simp add: normalizeRowKeys_def fold_set_property split: option.splits)

lemma normalizeRowKeys_SomeD:
  assumes "normalizeRowKeys input key = Some val"
  shows "key \<noteq> ''__proto__'' \<and> (\<exists>k v. (k, v) \<in> set input \<and> key = normalize_key k \<and> val = normalize_value v)"
proof -
  from assms have p: "key \<noteq> ''__proto__''"
    by (auto simp: normalizeRowKeys_lookup split: if_splits)
  with assms have "map_of (rev (map (\<lambda>(k, v). (normalize_key k, normalize_value v)) input)) key = Some val"
    by (simp add: normalizeRowKeys_lookup)
  then have "(key, val) \<in> set (map (\<lambda>(k, v). (normalize_key k, normalize_value v)) input)"
    by (auto dest: map_of_SomeD)
  with p show ?thesis by auto
qed

lemma map_of_rev_distinct: "distinct (map fst xs) \<Longrightarrow> map_of (rev xs) = map_of xs"
proof (rule ext)
  fix k
  assume d: "distinct (map fst xs)"
  then have d': "distinct (map fst (rev xs))"
    by (simp add: rev_map[symmetric])
  show "map_of (rev xs) k = map_of xs k"
  proof (cases "map_of xs k")
    case None
    then have "k \<notin> fst ` set xs" by (simp add: map_of_eq_None_iff)
    then have "map_of (rev xs) k = None" by (simp add: map_of_eq_None_iff)
    with None show ?thesis by simp
  next
    case (Some v)
    then have "(k, v) \<in> set (rev xs)" by (auto dest: map_of_SomeD)
    with d' have "map_of (rev xs) k = Some v" by (rule map_of_is_SomeI)
    with Some show ?thesis by simp
  qed
qed




text \<open>
  C9. Normalizing a normalized record gives the same record: whatever the order \<open>es\<close> in which
  the properties of \<open>normalizeRowKeys r\<close> are enumerated, \<open>normalizeRowKeys\<close> maps these entries
  to \<open>normalizeRowKeys r\<close> again.
\<close>

theorem normalizeRowKeys_idempotent:
  assumes "distinct (map fst es)" and "map_of es = normalizeRowKeys r"
  shows "normalizeRowKeys (map (\<lambda>(k, v). (k, JString v)) es) = normalizeRowKeys r"
proof (rule ext)
  fix key
  let ?g = "\<lambda>(k, v). (normalize_key k, normalize_value v)"
  have fixed: "normalize_key k = k \<and> normalize_value (JString v) = v" if "(k, v) \<in> set es" for k v
  proof -
    from that assms(1) have "map_of es k = Some v" by simp
    with assms(2) have "normalizeRowKeys r k = Some v" by simp
    then obtain k0 v0 where "k = normalize_key k0" "v = normalize_value v0"
      by (auto dest: normalizeRowKeys_SomeD)
    then show ?thesis by simp
  qed
  have "map ?g (map (\<lambda>(k, v). (k, JString v)) es) = map (\<lambda>p. p) es"
    unfolding map_map by (rule map_cong) (auto simp: fixed)
  then have same: "map ?g (map (\<lambda>(k, v). (k, JString v)) es) = es"
    by simp
  show "normalizeRowKeys (map (\<lambda>(k, v). (k, JString v)) es) key = normalizeRowKeys r key"
  proof (cases "key = ''__proto__''")
    case True
    then show ?thesis by (simp add: normalizeRowKeys_lookup)
  next
    case False
    then have "normalizeRowKeys (map (\<lambda>(k, v). (k, JString v)) es) key = map_of (rev es) key"
      by (simp only: normalizeRowKeys_lookup same if_False)
    also have "\<dots> = map_of es key"
      by (simp add: map_of_rev_distinct[OF assms(1)])
    finally show ?thesis by (simp add: assms(2))
  qed
qed

theorem normalizeRowKeys_idempotent_witness:
  "distinct (map fst [(''tips'', ''''), (''employee'', ''Bob'')])
   \<and> map_of [(''tips'', ''''), (''employee'', ''Bob'')]
       = normalizeRowKeys [('' Employee '', JString '' Bob ''), (''TIPS'', JNullish)]
   \<and> normalizeRowKeys [(''tips'', JString ''''), (''employee'', JString ''Bob'')]
       = normalizeRowKeys [('' Employee '', JString '' Bob ''), (''TIPS'', JNullish)]"
proof -
  have d: "distinct (map fst [(''tips'', ''''), (''employee'', ''Bob'')])"
    by simp
  have k: "normalize_key '' Employee '' = ''employee''" "normalize_key ''TIPS'' = ''tips''"
    and v: "normalize_value (JString '' Bob '') = ''Bob''" "normalize_value JNullish = []"
    by code_simp+
  have "map_of [(''tips'', ''''), (''employee'', ''Bob'')] key
      = normalizeRowKeys [('' Employee '', JString '' Bob ''), (''TIPS'', JNullish)] key" for key
    by (simp add: normalizeRowKeys_lookup k v)
  then have m: "map_of [(''tips'', ''''), (''employee'', ''Bob'')]
      = normalizeRowKeys [('' Employee '', JString '' Bob ''), (''TIPS'', JNullish)]"
    by (rule ext)
  from normalizeRowKeys_idempotent[OF d m]
  have "normalizeRowKeys [(''tips'', JString ''''), (''employee'', JString ''Bob'')]
       = normalizeRowKeys [('' Employee '', JString '' Bob ''), (''TIPS'', JNullish)]"
    by simp
  with d m show ?thesis by (intro conjI)
qed

section \<open>The payout reports: exclusion, totals and re-aggregation\<close>

subsection \<open>Sorting and grouping keep the rows\<close>

lemma set_insert_by [simp]: "set (insert_by cmp x ys) = insert x (set ys)"
  by (induction ys) auto

lemma set_sort_by [simp]: "set (sort_by cmp xs) = set xs"
  by (induction xs) (simp_all add: sort_by_def)

lemma sort_by_Cons: "sort_by cmp (x # xs) = insert_by cmp x (sort_by cmp xs)"
  by (simp add: sort_by_def)

lemma keys_map_set [simp]: "fst ` set (map_set m k v) = insert k (fst ` set m)"
proof (induction m)
  case Nil
  show ?case by simp
next
  case (Cons p m)
  obtain k' v' where p: "p = (k', v')" by (cases p)
  show ?case
  proof (cases "k' = k")
    case True
    then show ?thesis by (simp add: p)
  next
    case False
    then have "map_set (p # m) k v = p # map_set m k v" by (simp add: p)
    then show ?thesis using Cons.IH by (simp add: insert_commute)
  qed
qed

lemma keys_add_to_group [simp]:
  "fst ` set (add_to_group rnd e a m) = insert e (fst ` set m)"
  by (simp add: add_to_group_def Let_def)

lemma keys_fold_add_to_group:
  "fst ` set (fold (\<lambda>r m. add_to_group rnd (emp r) (amount r) m) rows m)
     = fst ` set m \<union> emp ` set rows"
  by (induction rows arbitrary: m) auto

lemma keys_byEmployee: "fst ` set (byEmployee rnd emp amount rows) = emp ` set rows"
  by (simp add: byEmployee_def keys_fold_add_to_group)

lemma Employee_to_summary_row [simp]: "Employee (to_summary_row rnd p) = fst p"
  by (cases p) (simp add: to_summary_row_def)

lemma TotalAmountOwed_to_summary_row [simp]: "TotalAmountOwed (to_summary_row rnd p) = total (snd p)"
  by (cases p) (simp add: to_summary_row_def)

lemma ShiftsThatWereOwed_to_summary_row [simp]:
  "ShiftsThatWereOwed (to_summary_row rnd p) = count (snd p)"
  by (cases p) (simp add: to_summary_row_def)

lemma summary_employees:
  "Employee ` set (summaryRows (aggregate rnd cmp emp amount rows)) = emp ` set rows"
proof -
  have "Employee ` set (summaryRows (aggregate rnd cmp emp amount rows))
          = fst ` set (byEmployee rnd emp amount rows)"
    by (simp add: aggregate_def Let_def image_image)
  then show ?thesis by (simp add: keys_byEmployee)
qed

lemma employee_add_amount_owed [simp]: "employee (add_amount_owed rnd r) = employee r"
  and location_add_amount_owed [simp]: "location (add_amount_owed rnd r) = location r"
  and employee_add_bonus [simp]: "employee (add_bonus s) = employee s"
  and location_add_bonus [simp]: "location (add_bonus s) = location s"
  and employee_to_shift [simp]: "employee (to_shift rnd n) = text_field n ''employee''"
  and location_to_shift [simp]: "location (to_shift rnd n) = text_field n ''location''"
  by (simp_all add: add_amount_owed_def add_bonus_def to_shift_def)

lemma keep_row_iff:
  "keep_row excl r \<longleftrightarrow>
     text_field r ''employee'' \<noteq> [] \<and> text_field r ''employee'' \<notin> set EXCLUDED_EMPLOYEES
     \<and> text_field r ''location'' \<notin> set excl"
  by (simp add: keep_row_def Let_def)

lemma owed_shifts_employee:
  assumes "r \<in> set (owed_shifts rnd excl parsed)"
  shows "employee r \<noteq> [] \<and> employee r \<notin> set EXCLUDED_EMPLOYEES \<and> location r \<notin> set excl"
  using assms
  by (auto simp: owed_shifts_def source_def withBonus_def filtered_def keep_row_iff)

text \<open>
  C5, as the code has it. The payout filter drops every record whose trimmed employee value
  is empty or is, letter for letter, a member of the exclusion list: no summary row and no
  owed shift carries such a name, so \<open>Troy\<close> never appears in the output. The
  match is exact: the value keeps its letter case and the list is not lower-cased.
\<close>

theorem payout_excludes_listed_employees:
  "(\<forall>row \<in> set (summaryRows (computePayout rnd localeCompare excl parsed)).
      Employee row \<noteq> [] \<and> Employee row \<notin> set EXCLUDED_EMPLOYEES)
   \<and> (\<forall>r \<in> set (owed_shifts rnd excl parsed).
      employee r \<noteq> [] \<and> employee r \<notin> set EXCLUDED_EMPLOYEES)
   \<and> filtered rnd excl rows =
       map (to_shift rnd)
         (filter (\<lambda>r. text_field r ''employee'' \<noteq> []
                      \<and> text_field r ''employee'' \<notin> set EXCLUDED_EMPLOYEES
                      \<and> text_field r ''location'' \<notin> set excl) rows)
   \<and> ''Troy'' \<in> set EXCLUDED_EMPLOYEES"
proof -
  have a: "\<forall>row \<in> set (summaryRows (computePayout rnd localeCompare excl parsed)).
      Employee row \<noteq> [] \<and> Employee row \<notin> set EXCLUDED_EMPLOYEES"
  proof
    fix row
    assume "row \<in> set (summaryRows (computePayout rnd localeCompare excl parsed))"
    then have "Employee row \<in> employee ` set (owed_shifts rnd excl parsed)"
      unfolding computePayout_def by (metis imageI summary_employees)
    then show "Employee row \<noteq> [] \<and> Employee row \<notin> set EXCLUDED_EMPLOYEES"
      by (auto dest: owed_shifts_employee)
  qed
  have b: "\<forall>r \<in> set (owed_shifts rnd excl parsed).
      employee r \<noteq> [] \<and> employee r \<notin> set EXCLUDED_EMPLOYEES"
    by (auto dest: owed_shifts_employee)
  have c: "filtered rnd excl rows =
       map (to_shift rnd)
         (filter (\<lambda>r. text_field r ''employee'' \<noteq> []
                      \<and> text_field r ''employee'' \<notin> set EXCLUDED_EMPLOYEES
                      \<and> text_field r ''location'' \<notin> set excl) rows)"
  proof -
    have "keep_row excl = (\<lambda>r. text_field r ''employee'' \<noteq> []
                      \<and> text_field r ''employee'' \<notin> set EXCLUDED_EMPLOYEES
                      \<and> text_field r ''location'' \<notin> set excl)"
      by (rule ext) (simp add: keep_row_iff)
    then show ?thesis by (simp add: filtered_def)
  qed
  have d: "''Troy'' \<in> set EXCLUDED_EMPLOYEES"
    by (simp add: EXCLUDED_EMPLOYEES_def)
  from a b c d show ?thesis by (intro conjI)
qed

theorem payout_excludes_listed_employees_witness:
  "map Employee (summaryRows (computePayout binary64 letter_compare EXCLUDED_LOCATIONS
      [[(''Employee'', JString ''Troy''), (''Location'', JString ''Main Street''),
        (''Tips'', JString ''5''), (''Cost'', JString ''20'')],
       [(''Employee'', JString ''Ann''), (''Location'', JString ''Main Street''),
        (''Tips'', JString ''5''), (''Cost'', JString ''20'')]])) = [''Ann'']
   \<and> ''Ann'' \<notin> set EXCLUDED_EMPLOYEES"
proof -
  let ?parsed = "[[(''Employee'', JString ''Troy''), (''Location'', JString ''Main Street''),
        (''Tips'', JString ''5''), (''Cost'', JString ''20'')],
       [(''Employee'', JString ''Ann''), (''Location'', JString ''Main Street''),
        (''Tips'', JString ''5''), (''Cost'', JString ''20'')]]"
  let ?rows = "summaryRows (computePayout binary64 letter_compare EXCLUDED_LOCATIONS ?parsed)"
  have e: "map Employee ?rows = [''Ann'']"
    by code_simp
  from payout_excludes_listed_employees[of binary64 letter_compare EXCLUDED_LOCATIONS ?parsed]
  have "\<forall>row \<in> set ?rows. Employee row \<notin> set EXCLUDED_EMPLOYEES"
    by blast
  then have "\<forall>n \<in> set (map Employee ?rows). n \<notin> set EXCLUDED_EMPLOYEES"
    by simp
  then have "''Ann'' \<notin> set EXCLUDED_EMPLOYEES"
    unfolding e by simp
  with e show ?thesis by (intro conjI)
qed

theorem excluded_name_in_lower_case_counterexample:
  "map Employee (summaryRows (computePayout binary64 letter_compare EXCLUDED_LOCATIONS
      [[(''Employee'', JString ''troy''), (''Location'', JString ''Main Street''),
        (''Tips'', JString ''5''), (''Cost'', JString ''20'')],
       [(''Employee'', JString ''TROY''), (''Location'', JString ''Main Street''),
        (''Tips'', JString ''5''), (''Cost'', JString ''20'')]])) = [''troy'', ''TROY'']
   \<and> toLowerCase ''troy'' = toLowerCase ''Troy'' \<and> toLowerCase ''TROY'' = toLowerCase ''Troy''
   \<and> ''Troy'' \<in> set EXCLUDED_EMPLOYEES"
  by code_simp

subsection \<open>Sums of the groups and of the rows\<close>

lemma js_add_exact_assoc:
  "js_add exact (js_add exact a b) c = js_add exact a (js_add exact b c)"
  by (cases a; cases b; cases c) (simp_all add: exact_def)

lemma js_add_exact_commute: "js_add exact a b = js_add exact b a"
  by (cases a; cases b) (simp_all add: exact_def)

lemma js_add_exact_zero [simp]: "js_add exact (Finite 0) a = a" "js_add exact a (Finite 0) = a"
  by (cases a; simp add: exact_def)+

lemma js_add_exact_left_commute:
  "js_add exact (js_add exact z a) b = js_add exact (js_add exact z b) a"
  by (metis js_add_exact_assoc js_add_exact_commute)

lemma foldl_js_add_exact:
  "foldl (js_add exact) (js_add exact z a) xs = js_add exact (foldl (js_add exact) z xs) a"
  by (induction xs arbitrary: z) (simp_all add: js_add_exact_left_commute)

lemma sum_insert_by:
  "foldl (js_add exact) z (map f (insert_by cmp x ys)) = foldl (js_add exact) z (map f (x # ys))"
  by (induction ys arbitrary: z) (simp_all add: js_add_exact_left_commute)

lemma sum_sort_by:
  "foldl (js_add exact) z (map f (sort_by cmp xs)) = foldl (js_add exact) z (map f xs)"
  by (induction xs arbitrary: z) (simp_all add: sort_by_Cons sum_insert_by sort_by_def[of _ "[]"])

lemma count_insert_by: "sum_list (map f (insert_by cmp x ys)) = (f x :: nat) + sum_list (map f ys)"
  by (induction ys) simp_all

lemma count_sort_by: "sum_list (map f (sort_by cmp xs)) = (sum_list (map f xs) :: nat)"
  by (induction xs) (simp_all add: sort_by_Cons count_insert_by sort_by_def[of _ "[]"])

lemma total_add_to_group:
  "foldl (js_add exact) z (map (\<lambda>p. total (snd p)) (add_to_group exact e a m))
     = js_add exact (foldl (js_add exact) z (map (\<lambda>p. total (snd p)) m)) a"
proof (induction m arbitrary: z)
  case Nil
  show ?case by (simp add: add_to_group_def)
next
  case (Cons p m)
  obtain k v where p: "p = (k, v)" by (cases p)
  show ?case
  proof (cases "k = e")
    case True
    then show ?thesis
      by (simp add: p add_to_group_def foldl_js_add_exact js_add_exact_assoc)
  next
    case False
    then have "add_to_group exact e a (p # m) = p # add_to_group exact e a m"
      by (simp add: p add_to_group_def Let_def)
    then show ?thesis by (simp add: Cons.IH)
  qed
qed

lemma count_add_to_group:
  "sum_list (map (\<lambda>p. count (snd p)) (add_to_group rnd e a m)) = sum_list (map (\<lambda>p. count (snd p)) m) + 1"
proof (induction m)
  case Nil
  show ?case by (simp add: add_to_group_def)
next
  case (Cons p m)
  obtain k v where p: "p = (k, v)" by (cases p)
  show ?case
  proof (cases "k = e")
    case True
    then show ?thesis by (simp add: p add_to_group_def)
  next
    case False
    then have "add_to_group rnd e a (p # m) = p # add_to_group rnd e a m"
      by (simp add: p add_to_group_def Let_def)
    then show ?thesis by (simp add: Cons.IH)
  qed
qed

lemma total_fold_add_to_group:
  "foldl (js_add exact) (Finite 0)
     (map (\<lambda>p. total (snd p)) (fold (\<lambda>r m. add_to_group exact (emp r) (amount r) m) rows m))
   = foldl (js_add exact) (foldl (js_add exact) (Finite 0) (map (\<lambda>p. total (snd p)) m)) (map amount rows)"
  by (induction rows arbitrary: m) (simp_all add: total_add_to_group)

lemma count_fold_add_to_group:
  "sum_list (map (\<lambda>p. count (snd p)) (fold (\<lambda>r m. add_to_group rnd (emp r) (amount r) m) rows m))
   = sum_list (map (\<lambda>p. count (snd p)) m) + length rows"
  by (induction rows arbitrary: m) (simp_all add: count_add_to_group)

lemma aggregate_totals:
  "totalAmount (aggregate rnd cmp emp amount rows) = foldl (js_add rnd) (Finite 0) (map amount rows)"
  "totalShifts (aggregate rnd cmp emp amount rows) = length rows"
  "totalAvg (aggregate rnd cmp emp amount rows) =
     (if length rows > 0
      then js_div_count rnd (foldl (js_add rnd) (Finite 0) (map amount rows)) (length rows)
      else Finite 0)"
  by (simp_all add: aggregate_def Let_def foldl_map)

lemma aggregate_sum_of_counts:
  "sum_list (map ShiftsThatWereOwed (summaryRows (aggregate rnd cmp emp amount rows))) = length rows"
proof -
  have "ShiftsThatWereOwed \<circ> to_summary_row rnd = (\<lambda>p. count (snd p))"
    by (rule ext) simp
  then show ?thesis
    by (simp add: aggregate_def Let_def count_sort_by byEmployee_def count_fold_add_to_group)
qed

lemma aggregate_sum_of_totals:
  "foldl (js_add exact) (Finite 0)
     (map TotalAmountOwed (summaryRows (aggregate exact cmp emp amount rows)))
   = foldl (js_add exact) (Finite 0) (map amount rows)"
proof -
  have "TotalAmountOwed \<circ> to_summary_row exact = (\<lambda>p. total (snd p))"
    by (rule ext) simp
  then show ?thesis
    by (simp add: aggregate_def Let_def sum_sort_by byEmployee_def total_fold_add_to_group)
qed

lemma distinct_map_set: "distinct (map fst m) \<Longrightarrow> distinct (map fst (map_set m k v))"
proof (induction m)
  case Nil
  show ?case by simp
next
  case (Cons p m)
  obtain k' v' where p: "p = (k', v')" by (cases p)
  from Cons.prems have k': "k' \<notin> fst ` set m" and d: "distinct (map fst m)"
    by (simp_all add: p)
  show ?case
  proof (cases "k' = k")
    case True
    with Cons.prems show ?thesis by (simp add: p)
  next
    case False
    with k' have "k' \<notin> fst ` set (map_set m k v)" by simp
    with False Cons.IH[OF d] show ?thesis by (simp add: p)
  qed
qed

lemma distinct_fold_add_to_group:
  "distinct (map fst m) \<Longrightarrow>
   distinct (map fst (fold (\<lambda>r m. add_to_group rnd (emp r) (amount r) m) rows m))"
  by (induction rows arbitrary: m) (simp_all add: add_to_group_def Let_def distinct_map_set)

lemma map_of_add_to_group:
  "map_of (add_to_group rnd e a m) e' =
     (if e' = e
      then Some \<lparr>total = js_add rnd (total (case map_of m e of None \<Rightarrow> \<lparr>total = Finite 0, count = 0\<rparr>
                                                | Some c \<Rightarrow> c)) a,
                 count = count (case map_of m e of None \<Rightarrow> \<lparr>total = Finite 0, count = 0\<rparr>
                                | Some c \<Rightarrow> c) + 1\<rparr>
      else map_of m e')"
  by (simp add: add_to_group_def Let_def map_of_map_set)

lemma map_of_fold_add_to_group:
  "map_of (fold (\<lambda>r m. add_to_group rnd (emp r) (amount r) m) rows m) e =
     (let rs = filter (\<lambda>r. emp r = e) rows;
          cur = (case map_of m e of None \<Rightarrow> \<lparr>total = Finite 0, count = 0\<rparr> | Some c \<Rightarrow> c)
      in if rs = [] then map_of m e
         else Some \<lparr>total = foldl (js_add rnd) (total cur) (map amount rs),
                    count = count cur + length rs\<rparr>)"
proof (induction rows arbitrary: m)
  case Nil
  show ?case by simp
next
  case (Cons r rows)
  show ?case
    by (simp add: Cons.IH map_of_add_to_group Let_def)
qed

lemma map_of_byEmployee:
  "map_of (byEmployee rnd emp amount rows) e =
     (let rs = filter (\<lambda>r. emp r = e) rows
      in if rs = [] then None
         else Some \<lparr>total = foldl (js_add rnd) (Finite 0) (map amount rs), count = length rs\<rparr>)"
  by (simp add: byEmployee_def map_of_fold_add_to_group Let_def)

lemma summary_row_of_group:
  assumes "row \<in> set (summaryRows (aggregate rnd cmp emp amount rows))"
  shows "TotalAmountOwed row =
           foldl (js_add rnd) (Finite 0) (map amount (filter (\<lambda>r. emp r = Employee row) rows))
         \<and> ShiftsThatWereOwed row = length (filter (\<lambda>r. emp r = Employee row) rows)"
proof -
  from assms obtain p where p: "p \<in> set (byEmployee rnd emp amount rows)"
    and row: "row = to_summary_row rnd p"
    by (auto simp: aggregate_def Let_def)
  have "distinct (map fst (byEmployee rnd emp amount rows))"
    by (simp add: byEmployee_def distinct_fold_add_to_group)
  with p have "map_of (byEmployee rnd emp amount rows) (fst p) = Some (snd p)"
    by simp
  then have "snd p = \<lparr>total = foldl (js_add rnd) (Finite 0)
                                (map amount (filter (\<lambda>r. emp r = fst p) rows)),
                      count = length (filter (\<lambda>r. emp r = fst p) rows)\<rparr>"
    by (simp add: map_of_byEmployee Let_def split: if_splits)
  then have "total (snd p) = foldl (js_add rnd) (Finite 0)
                                (map amount (filter (\<lambda>r. emp r = fst p) rows))"
    and "count (snd p) = length (filter (\<lambda>r. emp r = fst p) rows)"
    by simp_all
  then show ?thesis by (simp add: row)
qed

text \<open>
  C3, as the code has it. For every input the shift counts of the summary rows add up to the
  total number of shifts; the totals are the sum, the number and the average of the amounts
  owed of all owed shifts; and every summary row carries the sum, from left to right, and
  the number of the owed shifts of its employee. When the additions are exact, the totals
  owed of the summary rows add up to the total amount. In binary64 arithmetic the two are
  sums of the same amounts in different orders, each addition rounded, and need not be
  equal.
\<close>

theorem payout_totals:
  "sum_list (map ShiftsThatWereOwed (summaryRows (computePayout rnd localeCompare excl parsed)))
     = totalShifts (computePayout rnd localeCompare excl parsed)
   \<and> foldl (js_add exact) (Finite 0)
         (map TotalAmountOwed (summaryRows (computePayout exact localeCompare excl parsed)))
       = totalAmount (computePayout exact localeCompare excl parsed)
   \<and> totalAmount (computePayout rnd localeCompare excl parsed)
       = foldl (js_add rnd) (Finite 0) (map amount_owed (owed_shifts rnd excl parsed))
   \<and> totalShifts (computePayout rnd localeCompare excl parsed)
       = length (owed_shifts rnd excl parsed)
   \<and> totalAvg (computePayout rnd localeCompare excl parsed)
       = (if length (owed_shifts rnd excl parsed) > 0
          then js_div_count rnd (totalAmount (computePayout rnd localeCompare excl parsed))
                 (length (owed_shifts rnd excl parsed))
          else Finite 0)
   \<and> (\<forall>row \<in> set (summaryRows (computePayout rnd localeCompare excl parsed)).
        TotalAmountOwed row =
          foldl (js_add rnd) (Finite 0)
            (map amount_owed
               (filter (\<lambda>r. employee r = Employee row) (owed_shifts rnd excl parsed)))
        \<and> ShiftsThatWereOwed row =
            length (filter (\<lambda>r. employee r = Employee row) (owed_shifts rnd excl parsed)))"
proof -
  have counts: "sum_list (map ShiftsThatWereOwed (summaryRows (computePayout rnd localeCompare excl parsed)))
     = totalShifts (computePayout rnd localeCompare excl parsed)"
    by (simp add: computePayout_def aggregate_sum_of_counts aggregate_totals)
  have amounts: "foldl (js_add exact) (Finite 0)
         (map TotalAmountOwed (summaryRows (computePayout exact localeCompare excl parsed)))
       = totalAmount (computePayout exact localeCompare excl parsed)"
    by (simp add: computePayout_def aggregate_sum_of_totals aggregate_totals)
  have totals: "totalAmount (computePayout rnd localeCompare excl parsed)
       = foldl (js_add rnd) (Finite 0) (map amount_owed (owed_shifts rnd excl parsed))"
    "totalShifts (computePayout rnd localeCompare excl parsed)
       = length (owed_shifts rnd excl parsed)"
    "totalAvg (computePayout rnd localeCompare excl parsed)
       = (if length (owed_shifts rnd excl parsed) > 0
          then js_div_count rnd (totalAmount (computePayout rnd localeCompare excl parsed))
                 (length (owed_shifts rnd excl parsed))
          else Finite 0)"
    by (simp_all add: computePayout_def aggregate_totals)
  have groups: "\<forall>row \<in> set (summaryRows (computePayout rnd localeCompare excl parsed)).
        TotalAmountOwed row =
          foldl (js_add rnd) (Finite 0)
            (map amount_owed
               (filter (\<lambda>r. employee r = Employee row) (owed_shifts rnd excl parsed)))
        \<and> ShiftsThatWereOwed row =
            length (filter (\<lambda>r. employee r = Employee row) (owed_shifts rnd excl parsed))"
    unfolding computePayout_def by (blast dest: summary_row_of_group)
  from counts amounts totals groups show ?thesis by (intro conjI)
qed

theorem payout_totals_witness:
  "summaryRows (computePayout exact letter_compare EXCLUDED_LOCATIONS
      [[(''Employee'', JString ''B''), (''Location'', JString ''X''),
        (''Tips'', JString ''0''), (''Cost'', JString ''0.1'')],
       [(''Employee'', JString ''A''), (''Location'', JString ''X''),
        (''Tips'', JString ''0''), (''Cost'', JString ''0.2'')],
       [(''Employee'', JString ''A''), (''Location'', JString ''Y''),
        (''Tips'', JString ''0''), (''Cost'', JString ''0.3'')]])
     = [\<lparr>Employee = ''A'', TotalAmountOwed = Finite (1 / 2), ShiftsThatWereOwed = 2,
          AverageOwedPerShift = Finite (1 / 4)\<rparr>,
        \<lparr>Employee = ''B'', TotalAmountOwed = Finite (1 / 10), ShiftsThatWereOwed = 1,
          AverageOwedPerShift = Finite (1 / 10)\<rparr>]
   \<and> totalAmount (computePayout exact letter_compare EXCLUDED_LOCATIONS
      [[(''Employee'', JString ''B''), (''Location'', JString ''X''),
        (''Tips'', JString ''0''), (''Cost'', JString ''0.1'')],
       [(''Employee'', JString ''A''), (''Location'', JString ''X''),
        (''Tips'', JString ''0''), (''Cost'', JString ''0.2'')],
       [(''Employee'', JString ''A''), (''Location'', JString ''Y''),
        (''Tips'', JString ''0''), (''Cost'', JString ''0.3'')]])
     = Finite (3 / 5)
   \<and> totalShifts (computePayout exact letter_compare EXCLUDED_LOCATIONS
      [[(''Employee'', JString ''B''), (''Location'', JString ''X''),
        (''Tips'', JString ''0''), (''Cost'', JString ''0.1'')],
       [(''Employee'', JString ''A''), (''Location'', JString ''X''),
        (''Tips'', JString ''0''), (''Cost'', JString ''0.2'')],
       [(''Employee'', JString ''A''), (''Location'', JString ''Y''),
        (''Tips'', JString ''0''), (''Cost'', JString ''0.3'')]])
     = 3
   \<and> foldl (js_add exact) (Finite 0)
       (map amount_owed
          (filter (\<lambda>r. employee r = ''A'')
             (owed_shifts exact EXCLUDED_LOCATIONS
      [[(''Employee'', JString ''B''), (''Location'', JString ''X''),
        (''Tips'', JString ''0''), (''Cost'', JString ''0.1'')],
       [(''Employee'', JString ''A''), (''Location'', JString ''X''),
        (''Tips'', JString ''0''), (''Cost'', JString ''0.2'')],
       [(''Employee'', JString ''A''), (''Location'', JString ''Y''),
        (''Tips'', JString ''0''), (''Cost'', JString ''0.3'')]])))
     = Finite (1 / 2)"
proof -
  let ?parsed = "[[(''Employee'', JString ''B''), (''Location'', JString ''X''),
        (''Tips'', JString ''0''), (''Cost'', JString ''0.1'')],
       [(''Employee'', JString ''A''), (''Location'', JString ''X''),
        (''Tips'', JString ''0''), (''Cost'', JString ''0.2'')],
       [(''Employee'', JString ''A''), (''Location'', JString ''Y''),
        (''Tips'', JString ''0''), (''Cost'', JString ''0.3'')]]"
  let ?rep = "computePayout exact letter_compare EXCLUDED_LOCATIONS ?parsed"
  let ?A = "\<lparr>Employee = ''A'', TotalAmountOwed = Finite (1 / 2), ShiftsThatWereOwed = 2,
          AverageOwedPerShift = Finite (1 / 4)\<rparr>"
  have rows: "summaryRows ?rep
     = [?A,
        \<lparr>Employee = ''B'', TotalAmountOwed = Finite (1 / 10), ShiftsThatWereOwed = 1,
          AverageOwedPerShift = Finite (1 / 10)\<rparr>]"
    by code_simp
  note inst = payout_totals[of exact letter_compare EXCLUDED_LOCATIONS ?parsed]
  from inst have "sum_list (map ShiftsThatWereOwed (summaryRows ?rep)) = totalShifts ?rep"
    and "foldl (js_add exact) (Finite 0) (map TotalAmountOwed (summaryRows ?rep)) = totalAmount ?rep"
    by blast+
  then have shifts: "totalShifts ?rep = 3" and amount: "totalAmount ?rep = Finite (3 / 5)"
    unfolding rows by (simp_all add: exact_def)
  from inst have "\<forall>row \<in> set (summaryRows ?rep).
        TotalAmountOwed row =
          foldl (js_add exact) (Finite 0)
            (map amount_owed
               (filter (\<lambda>r. employee r = Employee row)
                  (owed_shifts exact EXCLUDED_LOCATIONS ?parsed)))"
    by blast
  moreover have "?A \<in> set (summaryRows ?rep)"
    unfolding rows by simp
  ultimately have "TotalAmountOwed ?A =
          foldl (js_add exact) (Finite 0)
            (map amount_owed
               (filter (\<lambda>r. employee r = Employee ?A)
                  (owed_shifts exact EXCLUDED_LOCATIONS ?parsed)))"
    by blast
  then have group: "foldl (js_add exact) (Finite 0)
       (map amount_owed
          (filter (\<lambda>r. employee r = ''A'') (owed_shifts exact EXCLUDED_LOCATIONS ?parsed)))
     = Finite (1 / 2)"
    by simp
  from rows amount shifts group show ?thesis by (intro conjI)
qed

theorem payout_totals_rounding_counterexample:
  "summaryRows (computePayout binary64 letter_compare EXCLUDED_LOCATIONS
      [[(''Employee'', JString ''B''), (''Location'', JString ''X''),
        (''Tips'', JString ''0''), (''Cost'', JString ''0.1'')],
       [(''Employee'', JString ''A''), (''Location'', JString ''X''),
        (''Tips'', JString ''0''), (''Cost'', JString ''0.2'')],
       [(''Employee'', JString ''A''), (''Location'', JString ''Y''),
        (''Tips'', JString ''0''), (''Cost'', JString ''0.3'')]])
     = [\<lparr>Employee = ''A'', TotalAmountOwed = Finite (1 / 2), ShiftsThatWereOwed = 2,
          AverageOwedPerShift = Finite (1 / 4)\<rparr>,
        \<lparr>Employee = ''B'', TotalAmountOwed = Finite (3602879701896397 / 36028797018963968),
          ShiftsThatWereOwed = 1,
          AverageOwedPerShift = Finite (3602879701896397 / 36028797018963968)\<rparr>]
   \<and> totalAmount (computePayout binary64 letter_compare EXCLUDED_LOCATIONS
      [[(''Employee'', JString ''B''), (''Location'', JString ''X''),
        (''Tips'', JString ''0''), (''Cost'', JString ''0.1'')],
       [(''Employee'', JString ''A''), (''Location'', JString ''X''),
        (''Tips'', JString ''0''), (''Cost'', JString ''0.2'')],
       [(''Employee'', JString ''A''), (''Location'', JString ''Y''),
        (''Tips'', JString ''0''), (''Cost'', JString ''0.3'')]])
     = Finite (5404319552844596 / 9007199254740992)
   \<and> foldl (js_add binary64) (Finite 0)
         [Finite (1 / 2), Finite (3602879701896397 / 36028797018963968)]
     = Finite (5404319552844595 / 9007199254740992)
   \<and> foldl (js_add binary64) (Finite 0)
         [Finite (3602879701896397 / 36028797018963968), Finite (1 / 2)]
     = Finite (5404319552844595 / 9007199254740992)
   \<and> foldl (js_add exact) (Finite 0)
         [Finite (1 / 2), Finite (3602879701896397 / 36028797018963968)]
     = Finite (21617278211378381 / 36028797018963968)
   \<and> foldl (js_add binary64) (Finite 0)
         (map TotalAmountOwed
            (summaryRows (computePayout binary64 letter_compare EXCLUDED_LOCATIONS
      [[(''Employee'', JString ''B''), (''Location'', JString ''X''),
        (''Tips'', JString ''0''), (''Cost'', JString ''0.1'')],
       [(''Employee'', JString ''A''), (''Location'', JString ''X''),
        (''Tips'', JString ''0''), (''Cost'', JString ''0.2'')],
       [(''Employee'', JString ''A''), (''Location'', JString ''Y''),
        (''Tips'', JString ''0''), (''Cost'', JString ''0.3'')]])))
     \<noteq> totalAmount (computePayout binary64 letter_compare EXCLUDED_LOCATIONS
      [[(''Employee'', JString ''B''), (''Location'', JString ''X''),
        (''Tips'', JString ''0''), (''Cost'', JString ''0.1'')],
       [(''Employee'', JString ''A''), (''Location'', JString ''X''),
        (''Tips'', JString ''0''), (''Cost'', JString ''0.2'')],
       [(''Employee'', JString ''A''), (''Location'', JString ''Y''),
        (''Tips'', JString ''0''), (''Cost'', JString ''0.3'')]])"
proof -
  let ?parsed = "[[(''Employee'', JString ''B''), (''Location'', JString ''X''),
        (''Tips'', JString ''0''), (''Cost'', JString ''0.1'')],
       [(''Employee'', JString ''A''), (''Location'', JString ''X''),
        (''Tips'', JString ''0''), (''Cost'', JString ''0.2'')],
       [(''Employee'', JString ''A''), (''Location'', JString ''Y''),
        (''Tips'', JString ''0''), (''Cost'', JString ''0.3'')]]"
  have rep: "computePayout binary64 letter_compare EXCLUDED_LOCATIONS ?parsed
     = \<lparr>summaryRows =
          [\<lparr>Employee = ''A'', TotalAmountOwed = Finite (1 / 2), ShiftsThatWereOwed = 2,
             AverageOwedPerShift = Finite (1 / 4)\<rparr>,
           \<lparr>Employee = ''B'', TotalAmountOwed = Finite (3602879701896397 / 36028797018963968),
             ShiftsThatWereOwed = 1,
             AverageOwedPerShift = Finite (3602879701896397 / 36028797018963968)\<rparr>],
        totalAmount = Finite (5404319552844596 / 9007199254740992),
        totalShifts = 3,
        totalAvg = Finite (7205759403792795 / 36028797018963968)\<rparr>"
    by code_simp
  have rows: "summaryRows (computePayout binary64 letter_compare EXCLUDED_LOCATIONS ?parsed)
     = [\<lparr>Employee = ''A'', TotalAmountOwed = Finite (1 / 2), ShiftsThatWereOwed = 2,
          AverageOwedPerShift = Finite (1 / 4)\<rparr>,
        \<lparr>Employee = ''B'', TotalAmountOwed = Finite (3602879701896397 / 36028797018963968),
          ShiftsThatWereOwed = 1,
          AverageOwedPerShift = Finite (3602879701896397 / 36028797018963968)\<rparr>]"
    by (simp only: rep report.simps)
  have amount: "totalAmount (computePayout binary64 letter_compare EXCLUDED_LOCATIONS ?parsed)
     = Finite (5404319552844596 / 9007199254740992)"
    by (simp only: rep report.simps)
  have s1: "foldl (js_add binary64) (Finite 0)
         [Finite (1 / 2), Finite (3602879701896397 / 36028797018963968)]
     = Finite (5404319552844595 / 9007199254740992)"
    by code_simp
  have s2: "foldl (js_add binary64) (Finite 0)
         [Finite (3602879701896397 / 36028797018963968), Finite (1 / 2)]
     = Finite (5404319552844595 / 9007199254740992)"
    by code_simp
  have s3: "foldl (js_add exact) (Finite 0)
         [Finite (1 / 2), Finite (3602879701896397 / 36028797018963968)]
     = Finite (21617278211378381 / 36028797018963968)"
    by code_simp
  have m: "map TotalAmountOwed
       [\<lparr>Employee = ''A'', TotalAmountOwed = Finite (1 / 2), ShiftsThatWereOwed = 2,
          AverageOwedPerShift = Finite (1 / 4)\<rparr>,
        \<lparr>Employee = ''B'', TotalAmountOwed = Finite (3602879701896397 / 36028797018963968),
          ShiftsThatWereOwed = 1,
          AverageOwedPerShift = Finite (3602879701896397 / 36028797018963968)\<rparr>]
     = [Finite (1 / 2), Finite (3602879701896397 / 36028797018963968)]"
    by simp
  have ne: "foldl (js_add binary64) (Finite 0)
         (map TotalAmountOwed
            (summaryRows (computePayout binary64 letter_compare EXCLUDED_LOCATIONS ?parsed)))
     \<noteq> totalAmount (computePayout binary64 letter_compare EXCLUDED_LOCATIONS ?parsed)"
    unfolding rows amount m s1 by simp
  from rows amount s1 s2 s3 ne show ?thesis by (intro conjI)
qed

subsection \<open>Re-aggregation of the location snapshot\<close>







lemma set_own_keys_order [simp]: "set (own_keys_order m) = set m"
  by (auto simp: own_keys_order_def)










end
